theory Spec2Isabelle
  imports Main
begin

section \<open>JavaScript numbers\<close>

text \<open>
  The ledger keeps amounts as strings and computes with them through \<^verbatim>\<open>parseFloat\<close>,
  \<^verbatim>\<open>+\<close>, \<^verbatim>\<open>-\<close>, \<^verbatim>\<open>*\<close>, \<^verbatim>\<open>toString\<close> and \<^verbatim>\<open>toFixed\<close>. A JavaScript number is an
  IEEE 754 binary64 value. \<open>Finite s m e\<close> stands for \<open>(-1)^s * m * 2^e\<close> in the
  canonical form of the format: \<open>2^52 \<le> m < 2^53\<close> and \<open>-1074 \<le> e \<le> 971\<close> for a
  normal number, \<open>m < 2^52\<close> and \<open>e = -1074\<close> for a subnormal number or a zero. The
  sign of a zero is kept.
\<close>

datatype number = NaN | Infinity bool | Finite bool nat int

text \<open>The number of digits of \<open>n\<close> in base \<open>b\<close>; 0 for \<open>n = 0\<close>.\<close>

function digitCount :: "nat \<Rightarrow> nat \<Rightarrow> nat" where
  "digitCount b n = (if n = 0 \<or> b < 2 then 0 else digitCount b (n div b) + 1)"
  by pat_completeness auto
termination
  by (relation "measure snd") auto

declare digitCount.simps [simp del]

text \<open>For \<open>n, d > 0\<close>: the integer \<open>k\<close> with \<open>2^k \<le> n / d < 2^(k+1)\<close>.\<close>

definition binade :: "nat \<Rightarrow> nat \<Rightarrow> int" where
  "binade n d =
     (let k = int (digitCount 2 n) - int (digitCount 2 d)
      in if (if 0 \<le> k then d * 2 ^ nat k \<le> n else d \<le> n * 2 ^ nat (- k)) then k else k - 1)"

text \<open>The integer nearest to \<open>n / d\<close>, a tie going to the even one.\<close>

definition roundTiesToEven :: "nat \<Rightarrow> nat \<Rightarrow> nat" where
  "roundTiesToEven n d =
     (let q = n div d; r = n mod d
      in if 2 * r < d then q else if d < 2 * r then q + 1 else if even q then q else q + 1)"

text \<open>
  The binary64 value nearest to the rational \<open>n / d\<close> (with \<open>d > 0\<close>) of sign \<open>s\<close>:
  53 significant bits, gradual underflow below \<open>2^-1022\<close>, overflow to an infinity.
\<close>

definition fround :: "bool \<Rightarrow> nat \<Rightarrow> nat \<Rightarrow> number" where
  "fround s n d =
     (if n = 0 then Finite s 0 (- 1074)
      else
        let e = max (binade n d - 52) (- 1074);
            m = (if 0 \<le> e then roundTiesToEven n (d * 2 ^ nat e)
                 else roundTiesToEven (n * 2 ^ nat (- e)) d);
            m' = (if m = 2 ^ 53 then 2 ^ 52 else m);
            e' = (if m = 2 ^ 53 then e + 1 else e)
        in if 971 < e' then Infinity s else Finite s m' e')"

text \<open>The binary64 values nearest to \<open>d * 10^x\<close> and to \<open>m * 2^e\<close>.\<close>

definition scale10 :: "bool \<Rightarrow> nat \<Rightarrow> int \<Rightarrow> number" where
  "scale10 s d x = (if 0 \<le> x then fround s (d * 10 ^ nat x) 1 else fround s d (10 ^ nat (- x)))"

definition scale2 :: "bool \<Rightarrow> nat \<Rightarrow> int \<Rightarrow> number" where
  "scale2 s m e = (if 0 \<le> e then fround s (m * 2 ^ nat e) 1 else fround s m (2 ^ nat (- e)))"

subsection \<open>parseFloat\<close>

text \<open>
  \<^verbatim>\<open>parseFloat\<close> skips leading white space, takes the longest prefix that is a
  \<^verbatim>\<open>StrDecimalLiteral\<close> (an optional sign, then \<^verbatim>\<open>Infinity\<close> or decimal digits with
  an optional fraction and an optional exponent) and rounds its mathematical value
  to binary64; it returns NaN when there is no such prefix. Strings are ASCII here.
\<close>

datatype strDecimal = NotNumeric | InfinityLiteral bool | DecimalLiteral bool nat int

definition isWhiteSpace :: "char \<Rightarrow> bool" where
  "isWhiteSpace c = (of_char c \<in> {9, 10, 11, 12, 13, 32 :: nat})"

definition isDigit :: "char \<Rightarrow> bool" where
  "isDigit c = (48 \<le> (of_char c :: nat) \<and> (of_char c :: nat) \<le> 57)"

definition digitsValue :: "string \<Rightarrow> nat" where
  "digitsValue ds = foldl (\<lambda>a c. 10 * a + (of_char c - 48)) 0 ds"

definition splitSign :: "string \<Rightarrow> bool \<times> string" where
  "splitSign t = (case t of [] \<Rightarrow> (False, [])
      | c # r \<Rightarrow> if c = CHR ''-'' then (True, r) else if c = CHR ''+'' then (False, r)
                else (False, t))"

definition parseExponentPart :: "string \<Rightarrow> int" where
  "parseExponentPart r = (case r of [] \<Rightarrow> 0
      | c # r' \<Rightarrow>
          if c = CHR ''e'' \<or> c = CHR ''E'' then
            (let (neg, ds) = splitSign r'; digs = takeWhile isDigit ds
             in if digs = [] then 0
                else if neg then - int (digitsValue digs) else int (digitsValue digs))
          else 0)"

text \<open>\<open>DecimalLiteral s d x\<close> is the literal of mathematical value \<open>(-1)^s * d * 10^x\<close>.\<close>

definition parseStrDecimalLiteral :: "string \<Rightarrow> strDecimal" where
  "parseStrDecimalLiteral str =
     (let (neg, u) = splitSign (dropWhile isWhiteSpace str)
      in if take 8 u = ''Infinity'' then InfinityLiteral neg
         else
           let ip = takeWhile isDigit u; r1 = dropWhile isDigit u;
               (fp, r2) = (case r1 of [] \<Rightarrow> ([], [])
                   | c # r \<Rightarrow> if c = CHR ''.'' then (takeWhile isDigit r, dropWhile isDigit r)
                             else ([], r1))
           in if ip = [] \<and> fp = [] then NotNumeric
              else DecimalLiteral neg (digitsValue (ip @ fp))
                     (parseExponentPart r2 - int (length fp)))"

fun roundLiteral :: "strDecimal \<Rightarrow> number" where
  "roundLiteral NotNumeric = NaN"
| "roundLiteral (InfinityLiteral s) = Infinity s"
| "roundLiteral (DecimalLiteral s d x) = scale10 s d x"

definition parseFloat :: "string \<Rightarrow> number" where
  "parseFloat str = roundLiteral (parseStrDecimalLiteral str)"

subsection \<open>Arithmetic and comparison\<close>

definition signed :: "bool \<Rightarrow> nat \<Rightarrow> int" where
  "signed s m = (if s then - int m else int m)"

text \<open>
  \<^verbatim>\<open>x + y\<close>: the exact sum rounded to binary64. A zero operand leaves the other
  operand as it is; an exact sum of zero is \<open>+0\<close> unless both operands are \<open>-0\<close>.
\<close>

fun number_add :: "number \<Rightarrow> number \<Rightarrow> number" where
  "number_add NaN y = NaN"
| "number_add x NaN = NaN"
| "number_add (Infinity s) (Infinity t) = (if s = t then Infinity s else NaN)"
| "number_add (Infinity s) (Finite t n f) = Infinity s"
| "number_add (Finite s m e) (Infinity t) = Infinity t"
| "number_add (Finite s m e) (Finite t n f) =
     (if m = 0 \<and> n = 0 then Finite (s \<and> t) 0 (- 1074)
      else if m = 0 then Finite t n f
      else if n = 0 then Finite s m e
      else
        let g = min e f;
            v = signed s (m * 2 ^ nat (e - g)) + signed t (n * 2 ^ nat (f - g))
        in if v = 0 then Finite False 0 (- 1074) else scale2 (v < 0) (nat \<bar>v\<bar>) g)"

declare number_add.simps [simp del]

text \<open>\<^verbatim>\<open>x * y\<close>: the exact product rounded to binary64.\<close>

fun number_mult :: "number \<Rightarrow> number \<Rightarrow> number" where
  "number_mult NaN y = NaN"
| "number_mult x NaN = NaN"
| "number_mult (Infinity s) (Infinity t) = Infinity (s \<noteq> t)"
| "number_mult (Infinity s) (Finite t n f) = (if n = 0 then NaN else Infinity (s \<noteq> t))"
| "number_mult (Finite s m e) (Infinity t) = (if m = 0 then NaN else Infinity (s \<noteq> t))"
| "number_mult (Finite s m e) (Finite t n f) = scale2 (s \<noteq> t) (m * n) (e + f)"

declare number_mult.simps [simp del]

fun number_neg :: "number \<Rightarrow> number" where
  "number_neg NaN = NaN"
| "number_neg (Infinity s) = Infinity (\<not> s)"
| "number_neg (Finite s m e) = Finite (\<not> s) m e"

text \<open>\<^verbatim>\<open>x - y\<close> is \<^verbatim>\<open>x + (-y)\<close> in IEEE 754.\<close>

definition number_sub :: "number \<Rightarrow> number \<Rightarrow> number" where
  "number_sub x y = number_add x (number_neg y)"

text \<open>\<^verbatim>\<open>Math.abs\<close>.\<close>

fun Math_abs :: "number \<Rightarrow> number" where
  "Math_abs NaN = NaN"
| "Math_abs (Infinity s) = Infinity False"
| "Math_abs (Finite s m e) = Finite False m e"

text \<open>\<^verbatim>\<open>x < y\<close>; a comparison with NaN is false.\<close>

fun number_less :: "number \<Rightarrow> number \<Rightarrow> bool" where
  "number_less NaN y = False"
| "number_less x NaN = False"
| "number_less (Infinity s) (Infinity t) = (s \<and> \<not> t)"
| "number_less (Infinity s) (Finite t n f) = s"
| "number_less (Finite s m e) (Infinity t) = (\<not> t)"
| "number_less (Finite s m e) (Finite t n f) =
     (let g = min e f in signed s (m * 2 ^ nat (e - g)) < signed t (n * 2 ^ nat (f - g)))"

declare number_less.simps [simp del]

text \<open>The literals \<^verbatim>\<open>0\<close>, \<^verbatim>\<open>-1\<close> and \<^verbatim>\<open>0.00000001\<close> of the source.\<close>

definition number_zero :: number where
  "number_zero = Finite False 0 (- 1074)"

definition number_minus_one :: number where
  "number_minus_one = Finite True (2 ^ 52) (- 52)"

definition number_1e_8 :: number where
  "number_1e_8 = scale10 False 1 (- 8)"

subsection \<open>Number to string\<close>

definition digitChar :: "nat \<Rightarrow> char" where
  "digitChar d = ''0123456789'' ! d"

function decimalDigits :: "nat \<Rightarrow> string" where
  "decimalDigits n = (if n < 10 then [digitChar n]
                      else decimalDigits (n div 10) @ [digitChar (n mod 10)])"
  by pat_completeness auto
termination
  by (relation "measure id") auto

declare decimalDigits.simps [simp del]

text \<open>The decimal rendering of an integer-valued number below \<open>10^21\<close> in magnitude.\<close>

definition intToString :: "int \<Rightarrow> string" where
  "intToString i = (if i < 0 then CHR ''-'' # decimalDigits (nat (- i)) else decimalDigits (nat i))"

text \<open>For \<open>x = N / D > 0\<close>: the integer \<open>n\<close> with \<open>10^(n-1) \<le> x < 10^n\<close>.\<close>

definition decimalExponent :: "nat \<Rightarrow> nat \<Rightarrow> int" where
  "decimalExponent N D =
     (let k = int (digitCount 10 N) - int (digitCount 10 D)
      in if (if 0 \<le> k then D * 10 ^ nat k \<le> N else D \<le> N * 10 ^ nat (- k)) then k + 1 else k)"

text \<open>\<open>\<lfloor>(N / D) / 10^j\<rfloor>\<close>, and whether it is at least as near to \<open>(N / D) / 10^j\<close> as its successor.\<close>

definition floorScaled :: "nat \<Rightarrow> nat \<Rightarrow> int \<Rightarrow> nat" where
  "floorScaled N D j = (if 0 \<le> j then N div (D * 10 ^ nat j) else (N * 10 ^ nat (- j)) div D)"

definition lowerIsCloser :: "nat \<Rightarrow> nat \<Rightarrow> int \<Rightarrow> nat \<Rightarrow> bool" where
  "lowerIsCloser N D j lo =
     (if 0 \<le> j then 2 * N \<le> (2 * lo + 1) * 10 ^ nat j * D
      else 2 * N * 10 ^ nat (- j) \<le> (2 * lo + 1) * D)"

text \<open>
  \<^verbatim>\<open>Number::toString\<close> picks the least number \<open>k\<close> of significant digits for which some
  \<open>k\<close>-digit decimal rounds back to the number, and among those decimals the one
  nearest to it. The search looks at the two \<open>k\<close>-digit neighbours of the value, for
  \<open>k = 1, 2, ...\<close>; seventeen digits always identify a binary64 value.
\<close>

function shortestDigits :: "nat \<Rightarrow> int \<Rightarrow> int \<Rightarrow> nat \<Rightarrow> nat \<Rightarrow> nat \<Rightarrow> nat \<times> nat" where
  "shortestDigits m e n0 N D k =
     (if 17 \<le> k then (k, floorScaled N D (n0 - int k))
      else
        let j = n0 - int k;
            lo = floorScaled N D j; hi = lo + 1;
            okLo = (lo \<noteq> 0 \<and> scale10 False lo j = Finite False m e);
            okHi = (scale10 False hi j = Finite False m e)
        in if okLo \<and> okHi then (k, if lowerIsCloser N D j lo then lo else hi)
           else if okLo then (k, lo)
           else if okHi then (k, hi)
           else shortestDigits m e n0 N D (k + 1))"
  by pat_completeness auto
termination
  by (relation "measure (\<lambda>(m, e, n0, N, D, k). 17 - k)") auto

declare shortestDigits.simps [simp del]

text \<open>The digits \<open>ds\<close> with the decimal point after the first \<open>n\<close> of them.\<close>

definition formatDigits :: "string \<Rightarrow> int \<Rightarrow> string" where
  "formatDigits ds n =
     (let k = int (length ds)
      in if k \<le> n \<and> n \<le> 21 then ds @ replicate (nat (n - k)) CHR ''0''
         else if 0 < n \<and> n \<le> 21 then take (nat n) ds @ ''.'' @ drop (nat n) ds
         else if - 6 < n \<and> n \<le> 0 then ''0.'' @ replicate (nat (- n)) CHR ''0'' @ ds
         else
           let x = n - 1;
               ex = (if x < 0 then CHR ''-'' else CHR ''+'') # decimalDigits (nat \<bar>x\<bar>)
           in if k = 1 then ds @ ''e'' @ ex
              else take 1 ds @ ''.'' @ drop 1 ds @ ''e'' @ ex)"

definition renderShortest :: "int \<Rightarrow> nat \<times> nat \<Rightarrow> string" where
  "renderShortest n0 kd =
     (if snd kd = 10 ^ fst kd then formatDigits (decimalDigits (10 ^ (fst kd - 1))) (n0 + 1)
      else formatDigits (decimalDigits (snd kd)) n0)"

definition positiveToString :: "nat \<Rightarrow> int \<Rightarrow> string" where
  "positiveToString m e =
     (let N = (if 0 \<le> e then m * 2 ^ nat e else m);
          D = (if 0 \<le> e then 1 else 2 ^ nat (- e));
          n0 = decimalExponent N D
      in renderShortest n0 (shortestDigits m e n0 N D 1))"

fun numberToString :: "number \<Rightarrow> string" where
  "numberToString NaN = ''NaN''"
| "numberToString (Infinity s) = (if s then ''-Infinity'' else ''Infinity'')"
| "numberToString (Finite s m e) =
     (if m = 0 then ''0'' else (if s then ''-'' else '''') @ positiveToString m e)"

declare numberToString.simps [simp del]

text \<open>
  \<^verbatim>\<open>x.toFixed(f)\<close> for \<open>0 \<le> f \<le> 100\<close>: below \<open>10^21\<close> in magnitude, the integer nearest
  to \<open>|x| * 10^f\<close> (the larger one at a tie) with the decimal point \<open>f\<close> digits from
  the right; the sign is written for every negative value, also one that rounds to zero.
\<close>

definition insertPoint :: "string \<Rightarrow> nat \<Rightarrow> string" where
  "insertPoint ds f =
     (if f = 0 then ds
      else
        let z = replicate (f + 1 - length ds) CHR ''0'' @ ds
        in take (length z - f) z @ ''.'' @ drop (length z - f) z)"

definition fixedDigits :: "nat \<Rightarrow> int \<Rightarrow> nat \<Rightarrow> string" where
  "fixedDigits m e f =
     insertPoint (decimalDigits (if 0 \<le> e then m * 2 ^ nat e * 10 ^ f
                                 else (2 * m * 10 ^ f + 2 ^ nat (- e)) div (2 * 2 ^ nat (- e)))) f"

fun toFixed :: "number \<Rightarrow> nat \<Rightarrow> string" where
  "toFixed NaN f = ''NaN''"
| "toFixed (Infinity s) f = (if s then ''-Infinity'' else ''Infinity'')"
| "toFixed (Finite s m e) f =
     (if s \<and> m \<noteq> 0 then ''-'' else '''')
     @ (if (if 0 \<le> e then 10 ^ 21 \<le> m * 2 ^ nat e else 10 ^ 21 * 2 ^ nat (- e) \<le> m)
        then numberToString (Finite False m e)
        else fixedDigits m e f)"

declare toFixed.simps [simp del]

section \<open>Data model\<close>

text \<open>
  A \<^verbatim>\<open>Date\<close> is its time value, the milliseconds since the epoch. A metadata object
  and an audit payload are kept as the fields they hold: \<^verbatim>\<open>JSON.stringify\<close> is not
  modelled, and a stored JSON text stands for the object it was made from.
\<close>

type_synonym date = int
type_synonym json = "(string \<times> string) list"

record LedgerAccount =
  acc_id :: string
  acc_tenantId :: string
  acc_accountType :: string
  acc_currency :: string
  acc_metadata :: "json option"
  acc_createdAt :: date

record LedgerEvent =
  ev_id :: string
  ev_tenantId :: string
  ev_accountId :: string
  ev_eventType :: string
  ev_amount :: string
  ev_currency :: string
  ev_idempotencyKey :: string
  ev_reversesEventId :: "string option"
  ev_description :: "string option"
  ev_metadata :: "json option"
  ev_sequenceNumber :: int
  ev_createdAt :: date

record AuditEvent =
  au_id :: string
  au_tenantId :: string
  au_entityType :: string
  au_entityId :: string
  au_action :: string
  au_actorId :: "string option"
  au_payload :: "json option"
  au_createdAt :: date

record LedgerConfig =
  tenantId :: string

record OpenAccountParams =
  oa_accountId :: "string option"
  oa_accountType :: string
  oa_currency :: string
  oa_metadata :: "json option"

record RecordEventParams =
  re_eventId :: "string option"
  re_accountId :: string
  re_eventType :: string
  re_amount :: string
  re_currency :: string
  re_idempotencyKey :: string
  re_description :: "string option"
  re_metadata :: "json option"

record ReverseEventParams =
  rv_originalEventId :: string
  rv_reversalEventId :: "string option"
  rv_idempotencyKey :: string
  rv_description :: "string option"

record AccountBalance =
  bal_accountId :: string
  bal_balance :: string
  bal_currency :: string
  bal_eventCount :: nat

record StatementEntry =
  se_eventId :: string
  se_eventType :: string
  se_amount :: string
  se_runningBalance :: string
  se_description :: "string option"
  se_createdAt :: date

record AccountStatement =
  st_accountId :: string
  st_currency :: string
  st_entries :: "StatementEntry list"
  st_openingBalance :: string
  st_closingBalance :: string

record StatementOptions =
  fromDate :: "date option"
  toDate :: "date option"

record IntegrityReport =
  ir_valid :: bool
  ir_accountId :: string
  ir_expectedBalance :: string
  ir_calculatedBalance :: string
  ir_eventCount :: nat
  ir_errors :: "string list"

record AuditEventParams =
  ap_entityType :: string
  ap_entityId :: string
  ap_action :: string
  ap_actorId :: "string option"
  ap_payload :: "json option"

text \<open>
  \<open>LedgerError message code details\<close> is the class of the engine; \<open>Error message\<close> is
  the plain error the in-memory store throws.
\<close>

datatype error = LedgerError string string json | Error string

text \<open>
  What the environment hands to one call of the engine: the results of \<^verbatim>\<open>uuidv4()\<close>
  for the account or event id (drawn only when the caller gave none) and for the audit
  record id, and of \<^verbatim>\<open>new Date()\<close> at the insert of the entity and of the audit record.
\<close>

record runtime =
  entityUuid :: string
  auditUuid :: string
  entityTime :: date
  auditTime :: date

text \<open>\<^verbatim>\<open>a || b\<close> on an optional string: undefined and the empty string are falsy.\<close>

definition orElse :: "string option \<Rightarrow> string \<Rightarrow> string" where
  "orElse a b = (case a of None \<Rightarrow> b | Some x \<Rightarrow> if x = [] then b else x)"

definition orNull :: "string option \<Rightarrow> string option" where
  "orNull a = (case a of None \<Rightarrow> None | Some x \<Rightarrow> if x = [] then None else Some x)"

section \<open>InMemoryStorage\<close>

record InMemoryStorage =
  accounts :: "string \<rightharpoonup> LedgerAccount"
  events :: "LedgerEvent list"
  auditEvents :: "AuditEvent list"

definition emptyStorage :: InMemoryStorage where
  "emptyStorage = \<lparr>accounts = Map.empty, events = [], auditEvents = []\<rparr>"

definition accountKey :: "string \<Rightarrow> string \<Rightarrow> string" where
  "accountKey tenant accountId = tenant @ '':'' @ accountId"

definition getAccount :: "InMemoryStorage \<Rightarrow> string \<Rightarrow> string \<Rightarrow> LedgerAccount option" where
  "getAccount st tenant accountId = accounts st (accountKey tenant accountId)"

definition createAccount ::
  "InMemoryStorage \<Rightarrow> LedgerAccount \<Rightarrow> date \<Rightarrow> LedgerAccount \<times> InMemoryStorage" where
  "createAccount st account now =
     (let created = account\<lparr>acc_createdAt := now\<rparr>
      in (created,
          st\<lparr>accounts := (accounts st)
                (accountKey (acc_tenantId account) (acc_id account) \<mapsto> created)\<rparr>))"

definition getEventByIdempotencyKey ::
  "InMemoryStorage \<Rightarrow> string \<Rightarrow> string \<Rightarrow> LedgerEvent option" where
  "getEventByIdempotencyKey st tenant key =
     find (\<lambda>e. ev_tenantId e = tenant \<and> ev_idempotencyKey e = key) (events st)"

definition getEventById :: "InMemoryStorage \<Rightarrow> string \<Rightarrow> string \<Rightarrow> LedgerEvent option" where
  "getEventById st tenant eventId =
     find (\<lambda>e. ev_tenantId e = tenant \<and> ev_id e = eventId) (events st)"

definition getEventsByAccountId :: "InMemoryStorage \<Rightarrow> string \<Rightarrow> string \<Rightarrow> LedgerEvent list" where
  "getEventsByAccountId st tenant accountId =
     filter (\<lambda>e. ev_tenantId e = tenant \<and> ev_accountId e = accountId) (events st)"

definition getNextSequenceNumber :: "InMemoryStorage \<Rightarrow> string \<Rightarrow> string \<Rightarrow> int" where
  "getNextSequenceNumber st tenant accountId =
     (let accountEvents =
            filter (\<lambda>e. ev_tenantId e = tenant \<and> ev_accountId e = accountId) (events st)
      in if length accountEvents = 0 then 1
         else Max (set (map ev_sequenceNumber accountEvents)) + 1)"

definition createEvent ::
  "InMemoryStorage \<Rightarrow> LedgerEvent \<Rightarrow> date \<Rightarrow> (error + LedgerEvent) \<times> InMemoryStorage" where
  "createEvent st event now =
     (case find (\<lambda>e. ev_tenantId e = ev_tenantId event
                     \<and> ev_idempotencyKey e = ev_idempotencyKey event) (events st) of
        Some existingByKey \<Rightarrow>
          (Inl (Error (''Duplicate idempotency key: '' @ ev_idempotencyKey event)), st)
      | None \<Rightarrow>
          (let created = event\<lparr>ev_createdAt := now\<rparr>
           in (Inr created, st\<lparr>events := events st @ [created]\<rparr>)))"

definition createAuditEvent ::
  "InMemoryStorage \<Rightarrow> AuditEvent \<Rightarrow> date \<Rightarrow> AuditEvent \<times> InMemoryStorage" where
  "createAuditEvent st event now =
     (let created = event\<lparr>au_createdAt := now\<rparr>
      in (created, st\<lparr>auditEvents := auditEvents st @ [created]\<rparr>))"

definition getAuditEvents :: "InMemoryStorage \<Rightarrow> AuditEvent list" where
  "getAuditEvents st = auditEvents st"

section \<open>Ledger\<close>

text \<open>
  An engine is its configuration; the store it was built on is passed to each
  operation and returned by it, next to the value returned or the error thrown.
\<close>

definition Ledger :: "LedgerConfig \<Rightarrow> error + LedgerConfig" where
  "Ledger config =
     (if tenantId config = [] then Inl (LedgerError ''Tenant ID is required'' ''INVALID_CONFIG'' [])
      else Inr config)"

definition emitAuditEvent ::
  "LedgerConfig \<Rightarrow> runtime \<Rightarrow> AuditEventParams \<Rightarrow> InMemoryStorage \<Rightarrow> InMemoryStorage" where
  "emitAuditEvent config rt params st =
     snd (createAuditEvent st
       \<lparr>au_id = auditUuid rt,
        au_tenantId = tenantId config,
        au_entityType = ap_entityType params,
        au_entityId = ap_entityId params,
        au_action = ap_action params,
        au_actorId = orNull (ap_actorId params),
        au_payload = ap_payload params,
        au_createdAt = auditTime rt\<rparr> (auditTime rt))"

definition openAccount ::
  "LedgerConfig \<Rightarrow> runtime \<Rightarrow> OpenAccountParams \<Rightarrow> InMemoryStorage
     \<Rightarrow> (error + LedgerAccount) \<times> InMemoryStorage" where
  "openAccount config rt params st =
     (let accountId = orElse (oa_accountId params) (entityUuid rt)
      in case getAccount st (tenantId config) accountId of
           Some existing \<Rightarrow>
             (Inl (LedgerError (''Account '' @ accountId @ '' already exists'') ''ACCOUNT_EXISTS''
                    [(''accountId'', accountId)]), st)
         | None \<Rightarrow>
             (let (account, st1) = createAccount st
                    \<lparr>acc_id = accountId,
                     acc_tenantId = tenantId config,
                     acc_accountType = oa_accountType params,
                     acc_currency = oa_currency params,
                     acc_metadata = oa_metadata params,
                     acc_createdAt = entityTime rt\<rparr> (entityTime rt);
                  st2 = emitAuditEvent config rt
                    \<lparr>ap_entityType = ''account'',
                     ap_entityId = accountId,
                     ap_action = ''ACCOUNT_OPENED'',
                     ap_actorId = None,
                     ap_payload = Some [(''accountType'', oa_accountType params),
                                        (''currency'', oa_currency params)]\<rparr> st1
              in (Inr account, st2)))"

definition recordEvent ::
  "LedgerConfig \<Rightarrow> runtime \<Rightarrow> RecordEventParams \<Rightarrow> InMemoryStorage
     \<Rightarrow> (error + LedgerEvent) \<times> InMemoryStorage" where
  "recordEvent config rt params st =
     (case getEventByIdempotencyKey st (tenantId config) (re_idempotencyKey params) of
        Some existingByKey \<Rightarrow> (Inr existingByKey, st)
      | None \<Rightarrow>
         (case getAccount st (tenantId config) (re_accountId params) of
            None \<Rightarrow>
              (Inl (LedgerError (''Account '' @ re_accountId params @ '' not found'')
                     ''ACCOUNT_NOT_FOUND'' [(''accountId'', re_accountId params)]), st)
          | Some account \<Rightarrow>
              if acc_currency account \<noteq> re_currency params then
                (Inl (LedgerError (''Currency mismatch: account uses '' @ acc_currency account
                                    @ '', event uses '' @ re_currency params)
                       ''CURRENCY_MISMATCH''
                       [(''accountCurrency'', acc_currency account),
                        (''eventCurrency'', re_currency params)]), st)
              else
                (let eventId = orElse (re_eventId params) (entityUuid rt);
                     sequenceNumber = getNextSequenceNumber st (tenantId config) (re_accountId params)
                 in case createEvent st
                      \<lparr>ev_id = eventId,
                       ev_tenantId = tenantId config,
                       ev_accountId = re_accountId params,
                       ev_eventType = re_eventType params,
                       ev_amount = re_amount params,
                       ev_currency = re_currency params,
                       ev_idempotencyKey = re_idempotencyKey params,
                       ev_reversesEventId = None,
                       ev_description = orNull (re_description params),
                       ev_metadata = re_metadata params,
                       ev_sequenceNumber = sequenceNumber,
                       ev_createdAt = entityTime rt\<rparr> (entityTime rt) of
                      (Inl err, st1) \<Rightarrow> (Inl err, st1)
                    | (Inr event, st1) \<Rightarrow>
                        (Inr event,
                         emitAuditEvent config rt
                           \<lparr>ap_entityType = ''event'',
                            ap_entityId = eventId,
                            ap_action = ''EVENT_RECORDED'',
                            ap_actorId = None,
                            ap_payload = Some [(''accountId'', re_accountId params),
                                               (''eventType'', re_eventType params),
                                               (''amount'', re_amount params),
                                               (''currency'', re_currency params)]\<rparr> st1))))"

definition reverseEvent ::
  "LedgerConfig \<Rightarrow> runtime \<Rightarrow> ReverseEventParams \<Rightarrow> InMemoryStorage
     \<Rightarrow> (error + LedgerEvent) \<times> InMemoryStorage" where
  "reverseEvent config rt params st =
     (case getEventByIdempotencyKey st (tenantId config) (rv_idempotencyKey params) of
        Some existingByKey \<Rightarrow> (Inr existingByKey, st)
      | None \<Rightarrow>
         (case getEventById st (tenantId config) (rv_originalEventId params) of
            None \<Rightarrow>
              (Inl (LedgerError (''Original event '' @ rv_originalEventId params @ '' not found'')
                     ''EVENT_NOT_FOUND'' [(''eventId'', rv_originalEventId params)]), st)
          | Some originalEvent \<Rightarrow>
              (let existingEvents =
                     getEventsByAccountId st (tenantId config) (ev_accountId originalEvent);
                   alreadyReversed =
                     list_ex (\<lambda>e. ev_reversesEventId e = Some (rv_originalEventId params))
                       existingEvents
               in if alreadyReversed then
                    (Inl (LedgerError (''Event '' @ rv_originalEventId params
                                        @ '' has already been reversed'')
                           ''ALREADY_REVERSED'' [(''eventId'', rv_originalEventId params)]), st)
                  else
                    (let reversalEventId = orElse (rv_reversalEventId params) (entityUuid rt);
                         sequenceNumber = getNextSequenceNumber st (tenantId config)
                                            (ev_accountId originalEvent);
                         reversedAmount = numberToString
                           (number_mult (parseFloat (ev_amount originalEvent)) number_minus_one)
                     in case createEvent st
                          \<lparr>ev_id = reversalEventId,
                           ev_tenantId = tenantId config,
                           ev_accountId = ev_accountId originalEvent,
                           ev_eventType = ''REVERSAL'',
                           ev_amount = reversedAmount,
                           ev_currency = ev_currency originalEvent,
                           ev_idempotencyKey = rv_idempotencyKey params,
                           ev_reversesEventId = Some (rv_originalEventId params),
                           ev_description = Some (orElse (rv_description params)
                             (''Reversal of event '' @ rv_originalEventId params)),
                           ev_metadata = None,
                           ev_sequenceNumber = sequenceNumber,
                           ev_createdAt = entityTime rt\<rparr> (entityTime rt) of
                          (Inl err, st1) \<Rightarrow> (Inl err, st1)
                        | (Inr reversalEvent, st1) \<Rightarrow>
                            (Inr reversalEvent,
                             emitAuditEvent config rt
                               \<lparr>ap_entityType = ''event'',
                                ap_entityId = reversalEventId,
                                ap_action = ''EVENT_REVERSED'',
                                ap_actorId = None,
                                ap_payload = Some [(''originalEventId'', rv_originalEventId params),
                                                   (''reversalAmount'', reversedAmount)]\<rparr> st1)))))"

text \<open>The loop \<^verbatim>\<open>for (const event of events) balance += parseFloat(event.amount)\<close>.\<close>

fun sumAmounts :: "number \<Rightarrow> LedgerEvent list \<Rightarrow> number" where
  "sumAmounts balance [] = balance"
| "sumAmounts balance (event # rest) =
     sumAmounts (number_add balance (parseFloat (ev_amount event))) rest"

definition getAccountBalance ::
  "LedgerConfig \<Rightarrow> string \<Rightarrow> InMemoryStorage \<Rightarrow> (error + AccountBalance) \<times> InMemoryStorage" where
  "getAccountBalance config accountId st =
     (case getAccount st (tenantId config) accountId of
        None \<Rightarrow>
          (Inl (LedgerError (''Account '' @ accountId @ '' not found'') ''ACCOUNT_NOT_FOUND''
                 [(''accountId'', accountId)]), st)
      | Some account \<Rightarrow>
          (let evs = getEventsByAccountId st (tenantId config) accountId;
               balance = sumAmounts number_zero evs
           in (Inr \<lparr>bal_accountId = accountId,
                    bal_balance = toFixed balance 8,
                    bal_currency = acc_currency account,
                    bal_eventCount = length evs\<rparr>, st)))"

text \<open>
  \<^verbatim>\<open>events.sort((a, b) => a.sequenceNumber - b.sequenceNumber)\<close>: the sort of an array
  is stable, and so is \<open>sort_key\<close>. It sorts the array that \<^verbatim>\<open>filter\<close> made for this call
  in place; the array of the store is another one and stays as it is.
\<close>

definition sortBySequence :: "LedgerEvent list \<Rightarrow> LedgerEvent list" where
  "sortBySequence evs = sort_key ev_sequenceNumber evs"

definition inWindow :: "StatementOptions \<Rightarrow> LedgerEvent \<Rightarrow> bool" where
  "inWindow options e =
     (if (case fromDate options of Some d \<Rightarrow> ev_createdAt e < d | None \<Rightarrow> False) then False
      else if (case toDate options of Some d \<Rightarrow> d < ev_createdAt e | None \<Rightarrow> False) then False
      else True)"

definition filterWindow :: "StatementOptions option \<Rightarrow> LedgerEvent list \<Rightarrow> LedgerEvent list" where
  "filterWindow options evs = (case options of
       None \<Rightarrow> evs
     | Some opts \<Rightarrow> if fromDate opts \<noteq> None \<or> toDate opts \<noteq> None then filter (inWindow opts) evs
                   else evs)"

text \<open>The \<^verbatim>\<open>map\<close> over the events, which adds each amount to \<^verbatim>\<open>runningBalance\<close>.\<close>

fun statementEntries :: "number \<Rightarrow> LedgerEvent list \<Rightarrow> StatementEntry list" where
  "statementEntries runningBalance [] = []"
| "statementEntries runningBalance (event # rest) =
     (let runningBalance' = number_add runningBalance (parseFloat (ev_amount event))
      in \<lparr>se_eventId = ev_id event,
          se_eventType = ev_eventType event,
          se_amount = ev_amount event,
          se_runningBalance = toFixed runningBalance' 8,
          se_description = ev_description event,
          se_createdAt = ev_createdAt event\<rparr> # statementEntries runningBalance' rest)"

definition getAccountStatement ::
  "LedgerConfig \<Rightarrow> string \<Rightarrow> StatementOptions option \<Rightarrow> InMemoryStorage
     \<Rightarrow> (error + AccountStatement) \<times> InMemoryStorage" where
  "getAccountStatement config accountId options st =
     (case getAccount st (tenantId config) accountId of
        None \<Rightarrow>
          (Inl (LedgerError (''Account '' @ accountId @ '' not found'') ''ACCOUNT_NOT_FOUND''
                 [(''accountId'', accountId)]), st)
      | Some account \<Rightarrow>
          (let evs = filterWindow options
                       (sortBySequence (getEventsByAccountId st (tenantId config) accountId));
               entries = statementEntries number_zero evs;
               openingBalance = (case entries of
                   [] \<Rightarrow> ''0.00000000''
                 | first # _ \<Rightarrow> toFixed (number_sub (parseFloat (se_runningBalance first))
                                                    (parseFloat (se_amount first))) 8);
               closingBalance = (if entries = [] then ''0.00000000''
                                 else se_runningBalance (last entries))
           in (Inr \<lparr>st_accountId = accountId,
                    st_currency = acc_currency account,
                    st_entries = entries,
                    st_openingBalance = openingBalance,
                    st_closingBalance = closingBalance\<rparr>, st)))"

text \<open>The loop over the positions \<open>i, i + 1, ...\<close> of the sorted events.\<close>

fun sequenceErrors :: "nat \<Rightarrow> LedgerEvent list \<Rightarrow> string list" where
  "sequenceErrors i [] = []"
| "sequenceErrors i (event # rest) =
     (if ev_sequenceNumber event \<noteq> int i + 1
      then [''Gap in sequence: expected '' @ intToString (int i + 1) @ '', got ''
              @ intToString (ev_sequenceNumber event)]
      else []) @ sequenceErrors (i + 1) rest"

fun tenantErrors :: "string \<Rightarrow> LedgerEvent list \<Rightarrow> string list" where
  "tenantErrors tenant [] = []"
| "tenantErrors tenant (event # rest) =
     (if ev_tenantId event \<noteq> tenant
      then [''Tenant isolation violation: event '' @ ev_id event @ '' has wrong tenantId'']
      else []) @ tenantErrors tenant rest"

definition balanceErrors :: "number \<Rightarrow> number \<Rightarrow> string list" where
  "balanceErrors calculatedBalance expectedBalance =
     (if number_less number_1e_8 (Math_abs (number_sub calculatedBalance expectedBalance))
      then [''Balance mismatch: expected '' @ numberToString expectedBalance
              @ '', calculated '' @ numberToString calculatedBalance]
      else [])"

definition verifyLedgerIntegrity ::
  "LedgerConfig \<Rightarrow> string \<Rightarrow> InMemoryStorage \<Rightarrow> (error + IntegrityReport) \<times> InMemoryStorage" where
  "verifyLedgerIntegrity config accountId st =
     (case getAccount st (tenantId config) accountId of
        None \<Rightarrow>
          (Inl (LedgerError (''Account '' @ accountId @ '' not found'') ''ACCOUNT_NOT_FOUND''
                 [(''accountId'', accountId)]), st)
      | Some account \<Rightarrow>
          (let evs = sortBySequence (getEventsByAccountId st (tenantId config) accountId);
               errors1 = sequenceErrors 0 evs;
               errors2 = tenantErrors (tenantId config) evs;
               calculatedBalance = sumAmounts number_zero evs
           in case getAccountBalance config accountId st of
                (Inl err, st1) \<Rightarrow> (Inl err, st1)
              | (Inr balance, st1) \<Rightarrow>
                  (let expectedBalance = parseFloat (bal_balance balance);
                       errors = errors1 @ errors2 @ balanceErrors calculatedBalance expectedBalance
                   in (Inr \<lparr>ir_valid = (length errors = 0),
                            ir_accountId = accountId,
                            ir_expectedBalance = toFixed expectedBalance 8,
                            ir_calculatedBalance = toFixed calculatedBalance 8,
                            ir_eventCount = length evs,
                            ir_errors = errors\<rparr>, st1))))"

section \<open>Sequential runs\<close>

text \<open>
  The calls that write to the store, each with the engine that makes it. A run makes
  them one after the other; a call that throws leaves the store as it was at the throw.
\<close>

datatype call =
    OpenAccount LedgerConfig runtime OpenAccountParams
  | RecordEvent LedgerConfig runtime RecordEventParams
  | ReverseEvent LedgerConfig runtime ReverseEventParams

fun step :: "InMemoryStorage \<Rightarrow> call \<Rightarrow> InMemoryStorage" where
  "step st (OpenAccount config rt params) = snd (openAccount config rt params st)"
| "step st (RecordEvent config rt params) = snd (recordEvent config rt params st)"
| "step st (ReverseEvent config rt params) = snd (reverseEvent config rt params st)"

definition run :: "call list \<Rightarrow> InMemoryStorage \<Rightarrow> InMemoryStorage" where
  "run calls st = foldl step st calls"

section \<open>Exact decimal arithmetic\<close>










section \<open>Invariants of the store\<close>

definition appended :: "InMemoryStorage \<Rightarrow> LedgerEvent \<Rightarrow> bool" where
  "appended st e \<longleftrightarrow>
     getEventByIdempotencyKey st (ev_tenantId e) (ev_idempotencyKey e) = None
     \<and> ev_sequenceNumber e = getNextSequenceNumber st (ev_tenantId e) (ev_accountId e)
     \<and> (case ev_reversesEventId e of
          None \<Rightarrow> True
        | Some x \<Rightarrow> (case getEventById st (ev_tenantId e) x of
              None \<Rightarrow> False
            | Some orig \<Rightarrow> ev_accountId e = ev_accountId orig
                \<and> \<not> list_ex (\<lambda>e'. ev_reversesEventId e' = Some x)
                      (getEventsByAccountId st (ev_tenantId e) (ev_accountId orig))))"


definition keysDistinct :: "InMemoryStorage \<Rightarrow> bool" where
  "keysDistinct st \<longleftrightarrow> distinct (map (\<lambda>e. (ev_tenantId e, ev_idempotencyKey e)) (events st))"

definition reversalsTraced :: "InMemoryStorage \<Rightarrow> bool" where
  "reversalsTraced st \<longleftrightarrow>
     (\<forall>e \<in> set (events st). \<forall>x. ev_reversesEventId e = Some x \<longrightarrow>
        (\<exists>orig. getEventById st (ev_tenantId e) x = Some orig \<and> ev_accountId orig = ev_accountId e))"

definition reversalsOf :: "InMemoryStorage \<Rightarrow> string \<Rightarrow> string \<Rightarrow> LedgerEvent list" where
  "reversalsOf st t x = filter (\<lambda>e. ev_tenantId e = t \<and> ev_reversesEventId e = Some x) (events st)"

definition reversalInv :: "InMemoryStorage \<Rightarrow> bool" where
  "reversalInv st \<longleftrightarrow> reversalsTraced st \<and> (\<forall>t x. length (reversalsOf st t x) \<le> 1)"

section \<open>Example stores\<close>

definition exConfig :: LedgerConfig where
  "exConfig = \<lparr>tenantId = ''tenant-001''\<rparr>"

definition exRuntime :: runtime where
  "exRuntime = \<lparr>entityUuid = ''uuid-1'', auditUuid = ''uuid-2'', entityTime = 1000, auditTime = 1001\<rparr>"

definition exOpen :: OpenAccountParams where
  "exOpen = \<lparr>oa_accountId = Some ''A'', oa_accountType = ''CASH'', oa_currency = ''USD'',
             oa_metadata = None\<rparr>"

definition exCredit :: "string \<Rightarrow> string \<Rightarrow> string \<Rightarrow> string \<Rightarrow> RecordEventParams" where
  "exCredit accountId amount currency key =
     \<lparr>re_eventId = None, re_accountId = accountId, re_eventType = ''CREDIT'', re_amount = amount,
      re_currency = currency, re_idempotencyKey = key, re_description = None, re_metadata = None\<rparr>"

definition exReverse :: "string \<Rightarrow> string \<Rightarrow> ReverseEventParams" where
  "exReverse originalEventId key =
     \<lparr>rv_originalEventId = originalEventId, rv_reversalEventId = Some ''uuid-3'',
      rv_idempotencyKey = key, rv_description = None\<rparr>"

definition exAccount :: LedgerAccount where
  "exAccount = \<lparr>acc_id = ''A'', acc_tenantId = ''tenant-001'', acc_accountType = ''CASH'',
                acc_currency = ''USD'', acc_metadata = None, acc_createdAt = 1000\<rparr>"

definition exEvent :: "string \<Rightarrow> string \<Rightarrow> string \<Rightarrow> int \<Rightarrow> LedgerEvent" where
  "exEvent eventId amount key n =
     \<lparr>ev_id = eventId, ev_tenantId = ''tenant-001'', ev_accountId = ''A'', ev_eventType = ''CREDIT'',
      ev_amount = amount, ev_currency = ''USD'', ev_idempotencyKey = key,
      ev_reversesEventId = None, ev_description = None, ev_metadata = None,
      ev_sequenceNumber = n, ev_createdAt = 1000\<rparr>"

definition exReversal :: "string \<Rightarrow> string \<Rightarrow> int \<Rightarrow> LedgerEvent" where
  "exReversal amount key n =
     \<lparr>ev_id = ''uuid-3'', ev_tenantId = ''tenant-001'', ev_accountId = ''A'',
      ev_eventType = ''REVERSAL'', ev_amount = amount, ev_currency = ''USD'',
      ev_idempotencyKey = key, ev_reversesEventId = Some ''uuid-1'',
      ev_description = Some ''Reversal of event uuid-1'', ev_metadata = None,
      ev_sequenceNumber = n, ev_createdAt = 1000\<rparr>"

definition exAudit :: "string \<Rightarrow> string \<Rightarrow> string \<Rightarrow> json \<Rightarrow> AuditEvent" where
  "exAudit entityType entityId action payload =
     \<lparr>au_id = ''uuid-2'', au_tenantId = ''tenant-001'', au_entityType = entityType,
      au_entityId = entityId, au_action = action, au_actorId = None, au_payload = Some payload,
      au_createdAt = 1001\<rparr>"

definition exOpened :: InMemoryStorage where
  "exOpened = \<lparr>accounts = [''tenant-001:A'' \<mapsto> exAccount], events = [],
     auditEvents = [exAudit ''account'' ''A'' ''ACCOUNT_OPENED''
                      [(''accountType'', ''CASH''), (''currency'', ''USD'')]]\<rparr>"

definition exRecorded :: InMemoryStorage where
  "exRecorded = exOpened\<lparr>events := [exEvent ''uuid-1'' ''100.00'' ''k1'' 1],
     auditEvents := auditEvents exOpened @ [exAudit ''event'' ''uuid-1'' ''EVENT_RECORDED''
        [(''accountId'', ''A''), (''eventType'', ''CREDIT''), (''amount'', ''100.00''),
         (''currency'', ''USD'')]]\<rparr>"

definition exReversed :: InMemoryStorage where
  "exReversed = exRecorded\<lparr>events := events exRecorded @ [exReversal ''-100'' ''k2'' 2],
     auditEvents := auditEvents exRecorded @ [exAudit ''event'' ''uuid-3'' ''EVENT_REVERSED''
        [(''originalEventId'', ''uuid-1''), (''reversalAmount'', ''-100'')]]\<rparr>"


section \<open>Effects of the calls\<close>

lemma events_emitAuditEvent [simp]: "events (emitAuditEvent config rt params st) = events st"
  by (simp add: emitAuditEvent_def createAuditEvent_def Let_def)

lemma accounts_emitAuditEvent [simp]: "accounts (emitAuditEvent config rt params st) = accounts st"
  by (simp add: emitAuditEvent_def createAuditEvent_def Let_def)

lemma auditEvents_emitAuditEvent:
  "\<exists>a. auditEvents (emitAuditEvent config rt params st) = auditEvents st @ [a]
       \<and> au_action a = ap_action params \<and> au_entityId a = ap_entityId params
       \<and> au_tenantId a = tenantId config"
  by (simp add: emitAuditEvent_def createAuditEvent_def Let_def)

lemma events_openAccount [simp]: "events (snd (openAccount config rt params st)) = events st"
  by (simp add: openAccount_def createAccount_def Let_def split: option.splits)

lemma recordEvent_events:
  "events (snd (recordEvent config rt params st)) = events st
   \<or> (\<exists>e. events (snd (recordEvent config rt params st)) = events st @ [e] \<and> appended st e
          \<and> fst (recordEvent config rt params st) = Inr e)"
  by (auto simp: recordEvent_def createEvent_def getEventByIdempotencyKey_def appended_def Let_def
       split: option.splits)

lemma reverseEvent_events:
  "events (snd (reverseEvent config rt params st)) = events st
   \<or> (\<exists>e. events (snd (reverseEvent config rt params st)) = events st @ [e] \<and> appended st e
          \<and> fst (reverseEvent config rt params st) = Inr e)"
  by (auto simp: reverseEvent_def createEvent_def getEventByIdempotencyKey_def appended_def Let_def
       split: option.splits)

lemma step_events:
  "events (step st c) = events st \<or> (\<exists>e. events (step st c) = events st @ [e] \<and> appended st e)"
proof (cases c)
  case (OpenAccount config rt params)
  then show ?thesis by simp
next
  case (RecordEvent config rt params)
  then show ?thesis using recordEvent_events [of config rt params st] by auto
next
  case (ReverseEvent config rt params)
  then show ?thesis using reverseEvent_events [of config rt params st] by auto
qed



section \<open>Invariants of sequential runs\<close>





lemma keysDistinct_step:
  assumes "keysDistinct st"
  shows "keysDistinct (step st c)"
proof -
  consider (same) "events (step st c) = events st"
    | (app) e where "events (step st c) = events st @ [e]" "appended st e"
    using step_events [of st c] by blast
  then show ?thesis
  proof cases
    case same
    then show ?thesis using assms by (simp add: keysDistinct_def)
  next
    case app
    from app(2) have "find (\<lambda>e'. ev_tenantId e' = ev_tenantId e
        \<and> ev_idempotencyKey e' = ev_idempotencyKey e) (events st) = None"
      by (simp add: appended_def getEventByIdempotencyKey_def)
    then have "(ev_tenantId e, ev_idempotencyKey e)
        \<notin> set (map (\<lambda>e. (ev_tenantId e, ev_idempotencyKey e)) (events st))"
      by (auto simp: find_None_iff)
    then show ?thesis using assms app(1) by (simp add: keysDistinct_def)
  qed
qed

lemma keysDistinct_run: "keysDistinct st \<Longrightarrow> keysDistinct (run calls st)"
  unfolding run_def by (induction calls arbitrary: st) (simp_all add: keysDistinct_step)

lemma find_distinct_key:
  "distinct (map f xs) \<Longrightarrow> e \<in> set xs \<Longrightarrow> find (\<lambda>y. f y = f e) xs = Some e"
  by (induction xs) (auto simp: image_iff)

lemma keysDistinct_lookup:
  assumes "keysDistinct st" "e \<in> set (events st)"
  shows "getEventByIdempotencyKey st (ev_tenantId e) (ev_idempotencyKey e) = Some e"
proof -
  have "find (\<lambda>y. (ev_tenantId y, ev_idempotencyKey y) = (ev_tenantId e, ev_idempotencyKey e))
          (events st) = Some e"
    using assms unfolding keysDistinct_def by (rule find_distinct_key)
  then show ?thesis by (simp add: getEventByIdempotencyKey_def)
qed

lemma find_append_Some: "find P xs = Some y \<Longrightarrow> find P (xs @ zs) = Some y"
  by (induction xs) (auto split: if_splits)

lemma reversalsTraced_append:
  assumes tr: "reversalsTraced st"
    and app: "events st' = events st @ [e]"
    and new: "\<And>x. ev_reversesEventId e = Some x \<Longrightarrow>
        \<exists>orig. getEventById st (ev_tenantId e) x = Some orig \<and> ev_accountId orig = ev_accountId e"
  shows "reversalsTraced st'"
  unfolding reversalsTraced_def
proof (intro ballI allI impI)
  fix r x
  assume r: "r \<in> set (events st')" and rx: "ev_reversesEventId r = Some x"
  have "\<exists>orig. getEventById st (ev_tenantId r) x = Some orig \<and> ev_accountId orig = ev_accountId r"
  proof (cases "r \<in> set (events st)")
    case True
    with tr rx show ?thesis unfolding reversalsTraced_def by blast
  next
    case False
    with r app have "r = e" by simp
    with rx new show ?thesis by blast
  qed
  then obtain orig where "getEventById st (ev_tenantId r) x = Some orig"
    "ev_accountId orig = ev_accountId r" by blast
  then show "\<exists>orig. getEventById st' (ev_tenantId r) x = Some orig
      \<and> ev_accountId orig = ev_accountId r"
    by (simp add: getEventById_def app find_append_Some)
qed

lemma reversalInv_step:
  assumes "reversalInv st"
  shows "reversalInv (step st c)"
proof -
  from assms have tr: "reversalsTraced st" and one: "\<And>t x. length (reversalsOf st t x) \<le> 1"
    by (simp_all add: reversalInv_def)
  consider (same) "events (step st c) = events st"
    | (app) e where "events (step st c) = events st @ [e]" "appended st e"
    using step_events [of st c] by blast
  then show ?thesis
  proof cases
    case same
    then show ?thesis using assms
      by (simp add: reversalInv_def reversalsTraced_def reversalsOf_def getEventById_def)
  next
    case app
    show ?thesis
    proof (cases "ev_reversesEventId e")
      case None
      then have "reversalsTraced (step st c)"
        using reversalsTraced_append [OF tr app(1)] by simp
      moreover have "reversalsOf (step st c) t x = reversalsOf st t x" for t x
        using None app(1) by (simp add: reversalsOf_def)
      ultimately show ?thesis using one by (simp add: reversalInv_def)
    next
      case (Some x)
      with app(2) obtain orig where orig: "getEventById st (ev_tenantId e) x = Some orig"
        "ev_accountId e = ev_accountId orig"
        "\<not> list_ex (\<lambda>e'. ev_reversesEventId e' = Some x)
             (getEventsByAccountId st (ev_tenantId e) (ev_accountId orig))"
        by (auto simp: appended_def split: option.splits)
      have none: "reversalsOf st (ev_tenantId e) x = []"
      proof (rule ccontr)
        assume "reversalsOf st (ev_tenantId e) x \<noteq> []"
        then obtain r where r: "r \<in> set (events st)" "ev_tenantId r = ev_tenantId e"
          "ev_reversesEventId r = Some x"
          by (auto simp: reversalsOf_def filter_empty_conv)
        from tr r(1) r(3) obtain orig' where
          "getEventById st (ev_tenantId r) x = Some orig'" "ev_accountId orig' = ev_accountId r"
          unfolding reversalsTraced_def by blast
        with orig(1) r(2) have "ev_accountId orig = ev_accountId r" by simp
        with r have "r \<in> set (getEventsByAccountId st (ev_tenantId e) (ev_accountId orig))"
          by (simp add: getEventsByAccountId_def)
        with r(3) orig(3) show False by (auto simp: list_ex_iff)
      qed
      have traced: "reversalsTraced (step st c)"
      proof (rule reversalsTraced_append [OF tr app(1)])
        fix y assume "ev_reversesEventId e = Some y"
        with Some orig show "\<exists>orig. getEventById st (ev_tenantId e) y = Some orig
            \<and> ev_accountId orig = ev_accountId e" by simp
      qed
      have "length (reversalsOf (step st c) t y) \<le> 1" for t y
      proof (cases "t = ev_tenantId e \<and> y = x")
        case True
        then show ?thesis using none Some app(1) by (simp add: reversalsOf_def)
      next
        case False
        then have "reversalsOf (step st c) t y = reversalsOf st t y"
          using Some app(1) by (auto simp: reversalsOf_def)
        then show ?thesis using one by simp
      qed
      with traced show ?thesis by (simp add: reversalInv_def)
    qed
  qed
qed

lemma reversalInv_run: "reversalInv st \<Longrightarrow> reversalInv (run calls st)"
  unfolding run_def by (induction calls arbitrary: st) (simp_all add: reversalInv_step)

lemma reversalInv_empty: "reversalInv emptyStorage"
  by (simp add: reversalInv_def reversalsTraced_def reversalsOf_def emptyStorage_def)


section \<open>Evaluation of the examples\<close>

lemmas storage_defs = getAccount_def accountKey_def getEventByIdempotencyKey_def getEventById_def
  getEventsByAccountId_def getNextSequenceNumber_def createEvent_def createAccount_def
  createAuditEvent_def emitAuditEvent_def orElse_def orNull_def Let_def

lemmas ex_defs = exConfig_def exRuntime_def exOpen_def exCredit_def exReverse_def exAccount_def
  exEvent_def exReversal_def exAudit_def exOpened_def exRecorded_def

lemma exOpened_run: "run [OpenAccount exConfig exRuntime exOpen] emptyStorage = exOpened"
  by (simp add: run_def openAccount_def storage_defs ex_defs emptyStorage_def)

lemma exRecorded_step:
  "recordEvent exConfig exRuntime (exCredit ''A'' ''100.00'' ''USD'' ''k1'') exOpened
     = (Inr (exEvent ''uuid-1'' ''100.00'' ''k1'' 1), exRecorded)"
  by (simp add: recordEvent_def storage_defs ex_defs)

lemma exRecorded_run:
  "run [OpenAccount exConfig exRuntime exOpen,
        RecordEvent exConfig exRuntime (exCredit ''A'' ''100.00'' ''USD'' ''k1'')] emptyStorage
     = exRecorded"
  using exOpened_run exRecorded_step by (simp add: run_def)


lemma replicate_numeral: "replicate (numeral k) x = x # replicate (pred_numeral k) x"
  by (simp add: numeral_eq_Suc)

lemmas number_eval = number_add.simps number_mult.simps number_less.simps numberToString.simps
  toFixed.simps digitCount.simps binade_def roundTiesToEven_def fround_def scale10_def
  scale2_def isWhiteSpace_def isDigit_def digitsValue_def splitSign_def parseExponentPart_def
  parseStrDecimalLiteral_def parseFloat_def signed_def number_sub_def number_zero_def
  number_minus_one_def number_1e_8_def digitChar_def decimalDigits.simps intToString_def
  decimalExponent_def floorScaled_def lowerIsCloser_def shortestDigits.simps formatDigits_def
  positiveToString_def renderShortest_def fixedDigits_def insertPoint_def replicate_numeral Let_def

lemma reversed_100:
  "numberToString (number_mult (parseFloat ''100.00'') number_minus_one) = ''-100''"
  by (simp add: number_eval cong: let_weak_cong)

lemma exReversed_step:
  "reverseEvent exConfig exRuntime (exReverse ''uuid-1'' ''k2'') exRecorded
     = (Inr (exReversal ''-100'' ''k2'' 2), exReversed)"
proof -
  have amount: "ev_amount (exEvent ''uuid-1'' ''100.00'' ''k1'' 1) = ''100.00''"
    by (simp add: exEvent_def)
  show ?thesis
    by (simp add: reverseEvent_def storage_defs exConfig_def exRuntime_def exReverse_def
        exRecorded_def exOpened_def exReversed_def exReversal_def exAudit_def
        amount reversed_100)
      (simp add: exEvent_def)
qed











section \<open>Idempotent recording\<close>

lemma keysDistinct_empty: "keysDistinct emptyStorage"
  by (simp add: keysDistinct_def emptyStorage_def)

lemma find_append_None: "find P xs = None \<Longrightarrow> find P (xs @ zs) = find P zs"
  by (induction xs) (auto split: if_splits)

lemma recordEvent_fresh_audit:
  assumes "getEventByIdempotencyKey st (tenantId config) (re_idempotencyKey p) = None"
    and "recordEvent config rt p st = (Inr e, st1)"
  shows "ev_amount e = re_amount p \<and> ev_idempotencyKey e = re_idempotencyKey p
    \<and> ev_tenantId e = tenantId config
    \<and> events st1 = events st @ [e]
    \<and> (\<exists>a. auditEvents st1 = auditEvents st @ [a] \<and> au_action a = ''EVENT_RECORDED''
            \<and> au_entityId a = ev_id e)"
  using assms
  by (auto simp: recordEvent_def createEvent_def getEventByIdempotencyKey_def emitAuditEvent_def
      createAuditEvent_def Let_def split: option.splits if_splits)

lemma replay_returns_stored:
  assumes "e \<in> set (events (run calls emptyStorage))" "ev_tenantId e = tenantId config"
    "ev_idempotencyKey e = re_idempotencyKey p"
  shows "recordEvent config rt p (run calls emptyStorage) = (Inr e, run calls emptyStorage)"
proof -
  have "keysDistinct (run calls emptyStorage)"
    by (rule keysDistinct_run [OF keysDistinct_empty])
  with assms have "getEventByIdempotencyKey (run calls emptyStorage) (tenantId config)
      (re_idempotencyKey p) = Some e"
    using keysDistinct_lookup [of "run calls emptyStorage" e] by simp
  then show ?thesis by (simp add: recordEvent_def)
qed

lemma replay_after_first:
  assumes fresh: "getEventByIdempotencyKey st (tenantId config) (re_idempotencyKey pa) = None"
    and first: "recordEvent config rta pa st = (Inr ea, sta)"
    and same: "re_idempotencyKey pb = re_idempotencyKey pa"
  shows "recordEvent config rtb pb sta = (Inr ea, sta)"
    and "ev_amount ea = re_amount pa"
    and "length (filter (\<lambda>a. au_action a = ''EVENT_RECORDED'') (auditEvents sta))
          = Suc (length (filter (\<lambda>a. au_action a = ''EVENT_RECORDED'') (auditEvents st)))"
proof -
  have eff: "ev_amount ea = re_amount pa \<and> ev_idempotencyKey ea = re_idempotencyKey pa
    \<and> ev_tenantId ea = tenantId config
    \<and> events sta = events st @ [ea]
    \<and> (\<exists>a. auditEvents sta = auditEvents st @ [a] \<and> au_action a = ''EVENT_RECORDED''
            \<and> au_entityId a = ev_id ea)"
    using recordEvent_fresh_audit [OF fresh first] .
  from fresh have "find (\<lambda>e. ev_tenantId e = tenantId config
      \<and> ev_idempotencyKey e = re_idempotencyKey pa) (events st) = None"
    by (simp add: getEventByIdempotencyKey_def)
  with eff same have "getEventByIdempotencyKey sta (tenantId config) (re_idempotencyKey pb) = Some ea"
    by (simp add: getEventByIdempotencyKey_def find_append_None)
  then show "recordEvent config rtb pb sta = (Inr ea, sta)"
    by (simp add: recordEvent_def)
  from eff show "ev_amount ea = re_amount pa" by simp
  from eff show "length (filter (\<lambda>a. au_action a = ''EVENT_RECORDED'') (auditEvents sta))
          = Suc (length (filter (\<lambda>a. au_action a = ''EVENT_RECORDED'') (auditEvents st)))"
    by auto
qed

text \<open>
  Claim C1. In a store reached by sequential calls from the empty store, \<^verbatim>\<open>recordEvent\<close>
  with the tenant and idempotency key of a stored event returns that very event and
  the store as it was: no error, no new event, no new audit record. When a first call
  with a fresh key has recorded an event, a second call with the same key, whatever
  its other parameters, returns the first event with the first amount, and the two
  calls together have added exactly one \<^verbatim>\<open>EVENT_RECORDED\<close> audit record.
\<close>

theorem C1_idempotent_replay:
  "(e \<in> set (events (run calls emptyStorage)) \<and> ev_tenantId e = tenantId config
      \<and> ev_idempotencyKey e = re_idempotencyKey p
    \<longrightarrow> recordEvent config rt p (run calls emptyStorage) = (Inr e, run calls emptyStorage))
   \<and> (getEventByIdempotencyKey st (tenantId config) (re_idempotencyKey pa) = None
      \<and> recordEvent config rta pa st = (Inr ea, sta)
      \<and> re_idempotencyKey pb = re_idempotencyKey pa
    \<longrightarrow> recordEvent config rtb pb sta = (Inr ea, sta)
      \<and> ev_amount ea = re_amount pa
      \<and> length (filter (\<lambda>a. au_action a = ''EVENT_RECORDED'') (auditEvents sta))
          = Suc (length (filter (\<lambda>a. au_action a = ''EVENT_RECORDED'') (auditEvents st))))"
  (is "(?stored \<longrightarrow> ?replayed) \<and> (?first \<longrightarrow> ?second)")
proof (rule conjI)
  show "?stored \<longrightarrow> ?replayed"
  proof (rule impI)
    assume ?stored
    then show ?replayed by (simp add: replay_returns_stored)
  qed
  show "?first \<longrightarrow> ?second"
  proof (rule impI)
    assume h: ?first
    from h have fresh: "getEventByIdempotencyKey st (tenantId config) (re_idempotencyKey pa) = None"
      by simp
    from h have first: "recordEvent config rta pa st = (Inr ea, sta)" by simp
    from h have same: "re_idempotencyKey pb = re_idempotencyKey pa" by simp
    from replay_after_first [OF fresh first same] show ?second by simp
  qed
qed

text \<open>
  The scenario of the tests: open account \<open>A\<close>, record \<open>100.00\<close> under key \<open>k1\<close>, record
  \<open>200.00\<close> under \<open>k1\<close> again.
\<close>

theorem C1_idempotent_replay_witness:
  "exEvent ''uuid-1'' ''100.00'' ''k1'' 1
     \<in> set (events (run [OpenAccount exConfig exRuntime exOpen,
          RecordEvent exConfig exRuntime (exCredit ''A'' ''100.00'' ''USD'' ''k1'')] emptyStorage))
   \<and> getEventByIdempotencyKey exOpened ''tenant-001'' ''k1'' = None
   \<and> recordEvent exConfig exRuntime (exCredit ''A'' ''100.00'' ''USD'' ''k1'') exOpened
       = (Inr (exEvent ''uuid-1'' ''100.00'' ''k1'' 1), exRecorded)
   \<and> recordEvent exConfig exRuntime (exCredit ''A'' ''200.00'' ''USD'' ''k1'') exRecorded
       = (Inr (exEvent ''uuid-1'' ''100.00'' ''k1'' 1), exRecorded)
   \<and> ev_amount (exEvent ''uuid-1'' ''100.00'' ''k1'' 1) = ''100.00''
   \<and> length (filter (\<lambda>a. au_action a = ''EVENT_RECORDED'') (auditEvents exRecorded)) = 1"
proof -
  let ?calls = "[OpenAccount exConfig exRuntime exOpen,
          RecordEvent exConfig exRuntime (exCredit ''A'' ''100.00'' ''USD'' ''k1'')]"
  let ?e = "exEvent ''uuid-1'' ''100.00'' ''k1'' 1"
  have mem: "?e \<in> set (events (run ?calls emptyStorage))"
    by (simp add: exRecorded_run) (simp add: exRecorded_def)
  have fresh: "getEventByIdempotencyKey exOpened ''tenant-001'' ''k1'' = None"
    by (simp add: getEventByIdempotencyKey_def exOpened_def)
  have zero: "length (filter (\<lambda>a. au_action a = ''EVENT_RECORDED'') (auditEvents exOpened)) = 0"
    by (simp add: exOpened_def exAudit_def)
  from C1_idempotent_replay [where e = ?e and calls = ?calls and config = exConfig
      and p = "exCredit ''A'' ''200.00'' ''USD'' ''k1''" and rt = exRuntime
      and st = exOpened and pa = "exCredit ''A'' ''100.00'' ''USD'' ''k1''" and rta = exRuntime
      and ea = ?e and sta = exRecorded
      and pb = "exCredit ''A'' ''200.00'' ''USD'' ''k1''" and rtb = exRuntime]
  show ?thesis
    using mem fresh zero exRecorded_step
    by (simp add: exRecorded_run exConfig_def exCredit_def exEvent_def)
qed


section \<open>Sequence numbers\<close>




section \<open>Balances\<close>





section \<open>The reversal event\<close>




section \<open>Reversals\<close>

text \<open>
  Claim C5. Called with an idempotency key that no event of the tenant holds,
  \<^verbatim>\<open>reverseEvent\<close> throws \<^verbatim>\<open>ALREADY_REVERSED\<close> when an event in the account of the original
  event carries the original event id as \<^verbatim>\<open>reversesEventId\<close>, and \<^verbatim>\<open>EVENT_NOT_FOUND\<close> when no
  event of the tenant has the original event id; the store is left as it was. In every
  store reached by sequential calls from the empty store, at most one event of a tenant
  carries a given original event id as \<^verbatim>\<open>reversesEventId\<close>.
\<close>

theorem C5_single_reversal:
  "(getEventByIdempotencyKey st (tenantId config) (rv_idempotencyKey q) = None
      \<and> getEventById st (tenantId config) (rv_originalEventId q) = Some orig
      \<and> (\<exists>r \<in> set (getEventsByAccountId st (tenantId config) (ev_accountId orig)).
            ev_reversesEventId r = Some (rv_originalEventId q))
    \<longrightarrow> reverseEvent config rt q st =
         (Inl (LedgerError (''Event '' @ rv_originalEventId q @ '' has already been reversed'')
                ''ALREADY_REVERSED'' [(''eventId'', rv_originalEventId q)]), st))
   \<and> (getEventByIdempotencyKey st (tenantId config) (rv_idempotencyKey q) = None
      \<and> getEventById st (tenantId config) (rv_originalEventId q) = None
    \<longrightarrow> reverseEvent config rt q st =
         (Inl (LedgerError (''Original event '' @ rv_originalEventId q @ '' not found'')
                ''EVENT_NOT_FOUND'' [(''eventId'', rv_originalEventId q)]), st))
   \<and> length (filter (\<lambda>r. ev_tenantId r = t \<and> ev_reversesEventId r = Some x)
               (events (run calls emptyStorage))) \<le> 1"
  (is "(?reversed \<longrightarrow> ?already) \<and> (?unknown \<longrightarrow> ?notFound) \<and> ?atMostOne")
proof (intro conjI)
  show "?reversed \<longrightarrow> ?already"
    by (auto simp: reverseEvent_def Let_def list_ex_iff)
  show "?unknown \<longrightarrow> ?notFound"
    by (simp add: reverseEvent_def)
  have "reversalInv (run calls emptyStorage)"
    by (rule reversalInv_run [OF reversalInv_empty])
  then show ?atMostOne
    by (simp add: reversalInv_def reversalsOf_def)
qed

theorem C5_single_reversal_witness:
  "getEventByIdempotencyKey exReversed ''tenant-001'' ''k3'' = None
   \<and> getEventById exReversed ''tenant-001'' ''uuid-1'' = Some (exEvent ''uuid-1'' ''100.00'' ''k1'' 1)
   \<and> (\<exists>r \<in> set (getEventsByAccountId exReversed ''tenant-001'' ''A'').
         ev_reversesEventId r = Some ''uuid-1'')
   \<and> reverseEvent exConfig exRuntime (exReverse ''uuid-1'' ''k3'') exReversed =
        (Inl (LedgerError ''Event uuid-1 has already been reversed'' ''ALREADY_REVERSED''
               [(''eventId'', ''uuid-1'')]), exReversed)
   \<and> getEventById exReversed ''tenant-001'' ''nothing'' = None
   \<and> reverseEvent exConfig exRuntime (exReverse ''nothing'' ''k3'') exReversed =
        (Inl (LedgerError ''Original event nothing not found'' ''EVENT_NOT_FOUND''
               [(''eventId'', ''nothing'')]), exReversed)
   \<and> length (filter (\<lambda>r. ev_tenantId r = ''tenant-001'' \<and> ev_reversesEventId r = Some ''uuid-1'')
        (events (run [OpenAccount exConfig exRuntime exOpen,
           RecordEvent exConfig exRuntime (exCredit ''A'' ''100.00'' ''USD'' ''k1''),
           ReverseEvent exConfig exRuntime (exReverse ''uuid-1'' ''k2''),
           ReverseEvent exConfig exRuntime (exReverse ''uuid-1'' ''k3'')] emptyStorage))) = 1"
proof -
  let ?orig = "exEvent ''uuid-1'' ''100.00'' ''k1'' 1"
  let ?calls = "[OpenAccount exConfig exRuntime exOpen,
           RecordEvent exConfig exRuntime (exCredit ''A'' ''100.00'' ''USD'' ''k1''),
           ReverseEvent exConfig exRuntime (exReverse ''uuid-1'' ''k2''),
           ReverseEvent exConfig exRuntime (exReverse ''uuid-1'' ''k3'')]"
  have fresh: "getEventByIdempotencyKey exReversed ''tenant-001'' ''k3'' = None"
    by (simp add: getEventByIdempotencyKey_def exReversed_def exRecorded_def exEvent_def
        exReversal_def)
  have found: "getEventById exReversed ''tenant-001'' ''uuid-1'' = Some ?orig"
    by (simp add: getEventById_def exReversed_def exRecorded_def exEvent_def)
  have unknown: "getEventById exReversed ''tenant-001'' ''nothing'' = None"
    by (simp add: getEventById_def exReversed_def exRecorded_def exEvent_def exReversal_def)
  have reversed: "\<exists>r \<in> set (getEventsByAccountId exReversed ''tenant-001'' ''A'').
         ev_reversesEventId r = Some ''uuid-1''"
    by (simp add: getEventsByAccountId_def exReversed_def exRecorded_def exEvent_def
        exReversal_def)
  have tenant: "tenantId exConfig = ''tenant-001''" by (simp add: exConfig_def)
  have params: "rv_idempotencyKey (exReverse y ''k3'') = ''k3''"
    "rv_originalEventId (exReverse y ''k3'') = y" for y
    by (simp_all add: exReverse_def)
  have account: "ev_accountId ?orig = ''A''" by (simp add: exEvent_def)
  note inst = C5_single_reversal [where st = exReversed and config = exConfig and rt = exRuntime
      and t = "''tenant-001''" and x = "''uuid-1''" and calls = ?calls]
  from inst [where q = "exReverse ''uuid-1'' ''k3''" and orig = ?orig]
  have a: "reverseEvent exConfig exRuntime (exReverse ''uuid-1'' ''k3'') exReversed =
        (Inl (LedgerError ''Event uuid-1 has already been reversed'' ''ALREADY_REVERSED''
               [(''eventId'', ''uuid-1'')]), exReversed)"
    using fresh found reversed by (simp add: tenant params account)
  from inst [where q = "exReverse ''nothing'' ''k3''"]
  have b: "reverseEvent exConfig exRuntime (exReverse ''nothing'' ''k3'') exReversed =
        (Inl (LedgerError ''Original event nothing not found'' ''EVENT_NOT_FOUND''
               [(''eventId'', ''nothing'')]), exReversed)"
    using fresh unknown by (simp add: tenant params)
  have "run ?calls emptyStorage = exReversed"
    using exOpened_run exRecorded_step exReversed_step a by (simp add: run_def)
  then have "length (filter (\<lambda>r. ev_tenantId r = ''tenant-001''
        \<and> ev_reversesEventId r = Some ''uuid-1'') (events (run ?calls emptyStorage))) = 1"
    by (simp add: exReversed_def exRecorded_def exEvent_def exReversal_def)
  with inst fresh found unknown reversed a b show ?thesis by simp
qed

section \<open>Failures of recordEvent\<close>



section \<open>Idempotency before validation\<close>

text \<open>
  Claim C10. The idempotency lookup comes before every validation. When an event of
  the tenant holds the idempotency key, \<^verbatim>\<open>recordEvent\<close> returns it whatever the account
  id and the currency of the call are, and \<^verbatim>\<open>reverseEvent\<close> returns it whatever the
  original event id of the call is; the store is left as it was.
\<close>

theorem C10_lookup_before_validation:
  "(getEventByIdempotencyKey st (tenantId config) (re_idempotencyKey p) = Some e
    \<longrightarrow> recordEvent config rt p st = (Inr e, st))
   \<and> (getEventByIdempotencyKey st (tenantId config) (rv_idempotencyKey q) = Some e
    \<longrightarrow> reverseEvent config rt q st = (Inr e, st))"
  by (simp add: recordEvent_def reverseEvent_def)

theorem C10_lookup_before_validation_witness:
  "getEventByIdempotencyKey exReversed ''tenant-001'' ''k1''
      = Some (exEvent ''uuid-1'' ''100.00'' ''k1'' 1)
   \<and> getAccount exReversed ''tenant-001'' ''B'' = None
   \<and> recordEvent exConfig exRuntime (exCredit ''B'' ''5'' ''USD'' ''k1'') exReversed
       = (Inr (exEvent ''uuid-1'' ''100.00'' ''k1'' 1), exReversed)
   \<and> acc_currency exAccount \<noteq> ''EUR''
   \<and> recordEvent exConfig exRuntime (exCredit ''A'' ''5'' ''EUR'' ''k1'') exReversed
       = (Inr (exEvent ''uuid-1'' ''100.00'' ''k1'' 1), exReversed)
   \<and> getEventById exReversed ''tenant-001'' ''nothing'' = None
   \<and> reverseEvent exConfig exRuntime (exReverse ''nothing'' ''k1'') exReversed
       = (Inr (exEvent ''uuid-1'' ''100.00'' ''k1'' 1), exReversed)
   \<and> list_ex (\<lambda>e. ev_reversesEventId e = Some ''uuid-1'')
        (getEventsByAccountId exReversed ''tenant-001'' ''A'')
   \<and> reverseEvent exConfig exRuntime (exReverse ''uuid-1'' ''k1'') exReversed
       = (Inr (exEvent ''uuid-1'' ''100.00'' ''k1'' 1), exReversed)"
proof -
  have stored: "getEventByIdempotencyKey exReversed ''tenant-001'' ''k1''
      = Some (exEvent ''uuid-1'' ''100.00'' ''k1'' 1)"
    by (simp add: getEventByIdempotencyKey_def exReversed_def exRecorded_def exEvent_def)
  have absent: "getAccount exReversed ''tenant-001'' ''B'' = None"
    by (simp add: getAccount_def accountKey_def exReversed_def exRecorded_def exOpened_def)
  have other: "acc_currency exAccount \<noteq> ''EUR''"
    by (simp add: exAccount_def)
  have unknown: "getEventById exReversed ''tenant-001'' ''nothing'' = None"
    by (simp add: getEventById_def exReversed_def exRecorded_def exEvent_def exReversal_def)
  have reversed: "list_ex (\<lambda>e. ev_reversesEventId e = Some ''uuid-1'')
        (getEventsByAccountId exReversed ''tenant-001'' ''A'')"
    by (simp add: getEventsByAccountId_def exReversed_def exRecorded_def exEvent_def
        exReversal_def)
  have key_r: "re_idempotencyKey (exCredit accountId amount currency ''k1'') = ''k1''"
    for accountId amount currency by (simp add: exCredit_def)
  have key_v: "rv_idempotencyKey (exReverse x ''k1'') = ''k1''" for x
    by (simp add: exReverse_def)
  have tenant: "tenantId exConfig = ''tenant-001''" by (simp add: exConfig_def)
  note inst = C10_lookup_before_validation [where st = exReversed and config = exConfig
      and rt = exRuntime and e = "exEvent ''uuid-1'' ''100.00'' ''k1'' 1"]
  from inst [where p = "exCredit ''B'' ''5'' ''USD'' ''k1''"]
  have a: "recordEvent exConfig exRuntime (exCredit ''B'' ''5'' ''USD'' ''k1'') exReversed
       = (Inr (exEvent ''uuid-1'' ''100.00'' ''k1'' 1), exReversed)"
    using stored by (simp add: key_r tenant)
  from inst [where p = "exCredit ''A'' ''5'' ''EUR'' ''k1''"]
  have b: "recordEvent exConfig exRuntime (exCredit ''A'' ''5'' ''EUR'' ''k1'') exReversed
       = (Inr (exEvent ''uuid-1'' ''100.00'' ''k1'' 1), exReversed)"
    using stored by (simp add: key_r tenant)
  from inst [where q = "exReverse ''nothing'' ''k1''"]
  have c: "reverseEvent exConfig exRuntime (exReverse ''nothing'' ''k1'') exReversed
       = (Inr (exEvent ''uuid-1'' ''100.00'' ''k1'' 1), exReversed)"
    using stored by (simp add: key_v tenant)
  from inst [where q = "exReverse ''uuid-1'' ''k1''"]
  have d: "reverseEvent exConfig exRuntime (exReverse ''uuid-1'' ''k1'') exReversed
       = (Inr (exEvent ''uuid-1'' ''100.00'' ''k1'' 1), exReversed)"
    using stored by (simp add: key_v tenant)
  from stored absent other unknown reversed a b c d show ?thesis by simp
qed

end
